theory Spec2Isabelle
  imports Complex_Main
begin

section \<open>Numbers, tensors and errors\<close>

text \<open>
  The class \<open>Propellers\<close> of \<open>propellers.py\<close> keeps four one-dimensional tensors of
  32-bit floating-point numbers and an integer. A tensor is modelled as the list of its
  elements. An element is a real number, or \<open>None\<close> when the floating-point value is
  not a finite number (NaN or an infinity; which of them is not tracked).

  The range of the 32-bit format is modelled: a result too large for it is an
  infinity, a result too small is zero. Its precision is not: a result inside the range
  is kept as the exact real number, where the program keeps the nearest of the numbers
  the format has.
\<close>

type_synonym scalar = "real option"

type_synonym tensor = "scalar list"

datatype error = ValueError string | RuntimeError | OverflowError string

subsection \<open>Exact arithmetic\<close>

text \<open>Product of two elements; a NaN or an infinity never gives a finite product.\<close>

definition fmul :: "scalar \<Rightarrow> scalar \<Rightarrow> scalar" where
  "fmul a b = (case a of None \<Rightarrow> None
     | Some x \<Rightarrow> (case b of None \<Rightarrow> None | Some y \<Rightarrow> Some (x * y)))"

text \<open>
  Quotient of two elements. Dividing by zero gives an infinity or NaN. The only divisor
  in the program is the square root of a pitch. When the pitch is infinite so is the
  root, and the quotient is zero in the program and \<open>None\<close> here; the quotient is then
  multiplied by the infinite pitch, which gives NaN in the program and \<open>None\<close> here.
\<close>

definition fdiv :: "scalar \<Rightarrow> scalar \<Rightarrow> scalar" where
  "fdiv a b = (case a of None \<Rightarrow> None
     | Some x \<Rightarrow> (case b of None \<Rightarrow> None
         | Some y \<Rightarrow> if y = 0 then None else Some (x / y)))"

text \<open>Square root of an element: NaN below zero.\<close>

definition fsqrt :: "scalar \<Rightarrow> scalar" where
  "fsqrt a = (case a of None \<Rightarrow> None
     | Some x \<Rightarrow> if x < 0 then None else Some (sqrt x))"

text \<open>
  An element to the power of a positive exponent that is not an integer (the program
  uses 3.5 only): NaN for a negative base, zero for base zero.
\<close>

definition fpow :: "scalar \<Rightarrow> real \<Rightarrow> scalar" where
  "fpow a e = (case a of None \<Rightarrow> None
     | Some x \<Rightarrow> if x < 0 then None else Some (x powr e))"

subsection \<open>The range of 32-bit floating point\<close>

text \<open>
  Rounding to nearest gives an infinity from \<open>2^128 - 2^103\<close> on (half a step above
  the largest number of the format) and zero up to \<open>2^-150\<close> (half the smallest
  positive number of the format).
\<close>

definition f32_overflow :: real where
  "f32_overflow = 2 ^ 128 - 2 ^ 103"

definition f32_tiny :: real where
  "f32_tiny = 1 / 2 ^ 150"

definition round32 :: "scalar \<Rightarrow> scalar" where
  "round32 a = (case a of None \<Rightarrow> None
     | Some x \<Rightarrow> if f32_overflow \<le> \<bar>x\<bar> then None
                else if \<bar>x\<bar> \<le> f32_tiny then Some 0 else Some x)"

text \<open>The operations of the program on elements: the exact result, put into the range.\<close>

definition mul32 :: "scalar \<Rightarrow> scalar \<Rightarrow> scalar" where
  "mul32 a b = round32 (fmul a b)"

definition div32 :: "scalar \<Rightarrow> scalar \<Rightarrow> scalar" where
  "div32 a b = round32 (fdiv a b)"

definition sqrt32 :: "scalar \<Rightarrow> scalar" where
  "sqrt32 a = round32 (fsqrt a)"

definition pow32 :: "scalar \<Rightarrow> real \<Rightarrow> scalar" where
  "pow32 a e = round32 (fpow a e)"

subsection \<open>Python numbers and torch.tensor\<close>

text \<open>
  The constructor takes lists of Python numbers: integers of any size and floats,
  which may be NaN or infinite (\<open>None\<close>).
\<close>

datatype pynum = PyInt int | PyFloat scalar

definition is_int :: "pynum \<Rightarrow> bool" where
  "is_int x = (case x of PyInt i \<Rightarrow> True | PyFloat y \<Rightarrow> False)"

definition py_value :: "pynum \<Rightarrow> scalar" where
  "py_value x = (case x of PyInt i \<Rightarrow> Some (real_of_int i) | PyFloat y \<Rightarrow> y)"

text \<open>An integer that a 64-bit tensor element can hold.\<close>

definition int64_ok :: "pynum \<Rightarrow> bool" where
  "int64_ok x = (case x of PyInt i \<Rightarrow> - (2 ^ 63) \<le> i \<and> i < 2 ^ 63 | PyFloat y \<Rightarrow> True)"

text \<open>
  An integer that Python converts to a float: one that does not round to \<open>2^1024\<close>
  or more.
\<close>

definition double_ok :: "pynum \<Rightarrow> bool" where
  "double_ok x = (case x of PyInt i \<Rightarrow> \<bar>i\<bar> < 2 ^ 1024 - 2 ^ 970 | PyFloat y \<Rightarrow> True)"

text \<open>The number as an element of a 32-bit floating-point tensor.\<close>

definition to_f32 :: "pynum \<Rightarrow> scalar" where
  "to_f32 x = round32 (py_value x)"

text \<open>
  \<open>torch.tensor\<close> of a list of numbers. A list of integers, not empty, gives a tensor
  of 64-bit integers and raises an error when one of them does not fit; torch words
  the message of that error and names its class (\<open>ValueError\<close> in current releases,
  \<open>RuntimeError\<close> in older ones). Any other list gives a floating-point tensor, and Python
  raises \<open>OverflowError\<close> for an integer too large for a float. A tensor of integers
  becomes a floating-point tensor when the program multiplies it by 39.37, so the
  values are given as floating-point elements in both cases.
\<close>

definition torch_tensor :: "pynum list \<Rightarrow> error + tensor" where
  "torch_tensor xs =
     (if xs \<noteq> [] \<and> list_all is_int xs then
        (if list_all int64_ok xs then Inr (map to_f32 xs)
         else Inl (ValueError ''Overflow when unpacking long long''))
      else
        (if list_all double_ok xs then Inr (map to_f32 xs)
         else Inl (OverflowError ''int too large to convert to float'')))"

text \<open>\<open>torch.zeros\<close>, and the product of a Python number and a tensor.\<close>

definition torch_zeros :: "nat \<Rightarrow> tensor" where
  "torch_zeros k = replicate k (Some 0)"

definition scalar_mul :: "real \<Rightarrow> tensor \<Rightarrow> tensor" where
  "scalar_mul c xs = map (mul32 (Some c)) xs"

definition torch_pow :: "tensor \<Rightarrow> real \<Rightarrow> tensor" where
  "torch_pow xs e = map (\<lambda>x. pow32 x e) xs"

definition torch_sqrt :: "tensor \<Rightarrow> tensor" where
  "torch_sqrt xs = map sqrt32 xs"

text \<open>
  An elementwise operation on two one-dimensional tensors: elementwise when the sizes
  agree, a tensor of size one is broadcast, and any other pair of sizes raises
  \<open>RuntimeError\<close>.
\<close>

definition tensor_binop ::
  "(scalar \<Rightarrow> scalar \<Rightarrow> scalar) \<Rightarrow> tensor \<Rightarrow> tensor \<Rightarrow> error + tensor" where
  "tensor_binop f xs ys =
     (if length xs = length ys then Inr (map2 f xs ys)
      else if length xs = 1 then Inr (map (f (hd xs)) ys)
      else if length ys = 1 then Inr (map (\<lambda>x. f x (hd ys)) xs)
      else Inl RuntimeError)"

definition tensor_mul :: "tensor \<Rightarrow> tensor \<Rightarrow> error + tensor" where
  "tensor_mul = tensor_binop mul32"

definition tensor_div :: "tensor \<Rightarrow> tensor \<Rightarrow> error + tensor" where
  "tensor_div = tensor_binop div32"

subsection \<open>Numbers in error messages\<close>

text \<open>Python's \<open>str\<close> of an integer, as the f-strings of the program format it.\<close>

definition digit_char :: "nat \<Rightarrow> char" where
  "digit_char d = ''0123456789'' ! d"

fun str_nat :: "nat \<Rightarrow> string" where
  "str_nat k = (if k < 10 then [digit_char k]
                else str_nat (k div 10) @ [digit_char (k mod 10)])"

declare str_nat.simps [simp del]

definition str_int :: "int \<Rightarrow> string" where
  "str_int i = (if i < 0 then ''-'' @ str_nat (nat (- i)) else str_nat (nat i))"

text \<open>The \<open>shape\<close> of a one-dimensional tensor in an f-string.\<close>

definition str_shape :: "tensor \<Rightarrow> string" where
  "str_shape xs = ''torch.Size(['' @ str_nat (length xs) @ ''])''"

section \<open>The class Propellers\<close>

record propellers =
  n :: int
  dia :: tensor
  pitch :: tensor
  speed :: tensor
  thrust :: tensor

text \<open>
  \<open>__init__\<close>, statement by statement: the check of the diameters, their tensor, the
  check of the pitches, their tensor, the two tensors of zeros. An exception leaves no
  object behind. When both checks have passed, \<open>n_propellers\<close> is a length, so
  \<open>torch.zeros\<close> gets a size that is not negative.
\<close>

definition Propellers_init :: "int \<Rightarrow> pynum list \<Rightarrow> pynum list \<Rightarrow> error + propellers" where
  "Propellers_init n_propellers propeller_diameters propeller_pitchs =
     (if int (length propeller_diameters) \<noteq> n_propellers then
        Inl (ValueError (''Shape of propeller_diameters (''
          @ str_nat (length propeller_diameters)
          @ '') not equal to n_propellers ('' @ str_int n_propellers @ '').''))
      else case torch_tensor propeller_diameters of
        Inl e \<Rightarrow> Inl e
      | Inr d \<Rightarrow>
          if int (length propeller_pitchs) \<noteq> n_propellers then
            Inl (ValueError (''Shape of propeller_pitchs (''
              @ str_nat (length propeller_pitchs)
              @ '') not equal to n_propellers ('' @ str_int n_propellers @ '').''))
          else case torch_tensor propeller_pitchs of
            Inl e \<Rightarrow> Inl e
          | Inr p \<Rightarrow>
              Inr \<lparr>n = n_propellers,
                   dia = scalar_mul 39.37 d,
                   pitch = scalar_mul 39.37 p,
                   speed = torch_zeros (nat n_propellers),
                   thrust = torch_zeros (nat n_propellers)\<rparr>)"

text \<open>The right-hand sides of the two assignments to \<open>self.thrust\<close> in \<open>set_speed\<close>.\<close>

definition thrust_first :: "propellers \<Rightarrow> error + tensor" where
  "thrust_first self =
     (case tensor_mul (scalar_mul (4.392 / 10 ^ 8) (speed self)) (torch_pow (dia self) 3.5) of
        Inl e \<Rightarrow> Inl e
      | Inr a \<Rightarrow> tensor_div a (torch_sqrt (pitch self)))"

definition thrust_second :: "propellers \<Rightarrow> error + tensor" where
  "thrust_second self =
     (case tensor_mul (scalar_mul (4.23 / 10 ^ 4) (speed self)) (pitch self) of
        Inl e \<Rightarrow> Inl e
      | Inr b \<Rightarrow> tensor_mul (thrust self) b)"

text \<open>
  \<open>set_speed\<close>, for a one-dimensional tensor of speeds that are 32-bit floating-point
  numbers or integers. The result is the outcome of the call (an exception or a normal
  return) and the object after the call: an exception keeps the assignments made
  before it.
\<close>

definition set_speed :: "propellers \<Rightarrow> tensor \<Rightarrow> (error + unit) \<times> propellers" where
  "set_speed self propeller_speeds =
     (if int (length propeller_speeds) \<noteq> n self then
        (Inl (ValueError (''Shape of speed ('' @ str_shape propeller_speeds
           @ '') not equal to n_propellers ('' @ str_int (n self) @ '').'')), self)
      else
        let self1 = self\<lparr>speed := propeller_speeds\<rparr> in
        case thrust_first self1 of
          Inl e \<Rightarrow> (Inl e, self1)
        | Inr t1 \<Rightarrow>
            let self2 = self1\<lparr>thrust := t1\<rparr> in
            (case thrust_second self2 of
               Inl e \<Rightarrow> (Inl e, self2)
             | Inr t2 \<Rightarrow> (Inr (), self2\<lparr>thrust := t2\<rparr>)))"

text \<open>The object after a sequence of calls of \<open>set_speed\<close>, failed ones included.\<close>

fun run :: "propellers \<Rightarrow> tensor list \<Rightarrow> propellers" where
  "run self [] = self"
| "run self (sp # sps) = run (snd (set_speed self sp)) sps"

text \<open>
  What the two assignments to \<open>self.thrust\<close> compute for one propeller, from its
  speed, its diameter and its pitch: the first product and quotient, then the product
  with the second factor, in the order of the source.
\<close>

definition thrust_elem32 :: "scalar \<Rightarrow> scalar \<Rightarrow> scalar \<Rightarrow> scalar" where
  "thrust_elem32 sp d p =
     mul32 (div32 (mul32 (mul32 (Some (4.392 / 10 ^ 8)) sp) (pow32 d 3.5)) (sqrt32 p))
           (mul32 (mul32 (Some (4.23 / 10 ^ 4)) sp) p)"

text \<open>The same steps in exact arithmetic.\<close>

definition thrust_elem :: "scalar \<Rightarrow> scalar \<Rightarrow> scalar \<Rightarrow> scalar" where
  "thrust_elem sp d p =
     fmul (fdiv (fmul (fmul (Some (4.392 / 10 ^ 8)) sp) (fpow d 3.5)) (fsqrt p))
          (fmul (fmul (Some (4.23 / 10 ^ 4)) sp) p)"

text \<open>
  The closed form as the specification words it:
  \<open>4.392e-8 * 4.23e-4 * speed^2 * diameter^3.5 * pitch^0.5\<close>.
\<close>

definition spec_closed_form :: "real \<Rightarrow> real \<Rightarrow> real \<Rightarrow> real" where
  "spec_closed_form s d p = 4.392 / 10 ^ 8 * (4.23 / 10 ^ 4) * s\<^sup>2 * d powr 3.5 * p powr 0.5"

text \<open>
  An object of the class whose geometry comes from the constructor arguments
  \<open>cnt\<close>, \<open>ds\<close> and \<open>ps\<close>.
\<close>

definition built :: "int \<Rightarrow> pynum list \<Rightarrow> pynum list \<Rightarrow> propellers \<Rightarrow> bool" where
  "built cnt ds ps s =
     (n s = cnt \<and> int (length ds) = cnt \<and> int (length ps) = cnt
      \<and> dia s = map (\<lambda>x. mul32 (Some 39.37) (to_f32 x)) ds
      \<and> pitch s = map (\<lambda>x. mul32 (Some 39.37) (to_f32 x)) ps
      \<and> int (length (speed s)) = cnt \<and> int (length (thrust s)) = cnt)"

text \<open>
  An element that is finite, and not larger in magnitude than another, whenever the
  other is finite.
\<close>

definition below :: "scalar \<Rightarrow> scalar \<Rightarrow> bool" where
  "below u v = (case v of None \<Rightarrow> True
     | Some y \<Rightarrow> (case u of None \<Rightarrow> False | Some x \<Rightarrow> \<bar>x\<bar> \<le> \<bar>y\<bar>))"

section \<open>Exact arithmetic\<close>

lemma fmul_Some_iff:
  "fmul a b = Some t \<longleftrightarrow> (\<exists>x y. a = Some x \<and> b = Some y \<and> t = x * y)"
  by (auto simp add: fmul_def split: option.splits)

lemma fdiv_Some_iff:
  "fdiv a b = Some t \<longleftrightarrow> (\<exists>x y. a = Some x \<and> b = Some y \<and> y \<noteq> 0 \<and> t = x / y)"
  by (auto simp add: fdiv_def split: option.splits)

lemma fsqrt_Some_iff:
  "fsqrt a = Some t \<longleftrightarrow> (\<exists>x. a = Some x \<and> 0 \<le> x \<and> t = sqrt x)"
  by (auto simp add: fsqrt_def split: option.splits)

lemma fpow_Some_iff:
  "fpow a e = Some t \<longleftrightarrow> (\<exists>x. a = Some x \<and> 0 \<le> x \<and> t = x powr e)"
  by (auto simp add: fpow_def split: option.splits)

lemma thrust_elem_finite:
  assumes "0 \<le> d" and "0 < p"
  shows "thrust_elem (Some a) (Some d) (Some p)
         = Some ((4.392 / 10 ^ 8 * a * d powr 3.5 / sqrt p) * (4.23 / 10 ^ 4 * a * p))"
  using assms by (simp add: thrust_elem_def fmul_def fdiv_def fsqrt_def fpow_def)


lemma two_step_closed:
  fixes p :: real
  assumes "0 < p"
  shows "(c1 * a * D / sqrt p) * (c2 * a * p) = c1 * c2 * a\<^sup>2 * D * p powr 0.5"
proof -
  have root: "p / sqrt p = sqrt p"
    using assms by (simp add: real_div_sqrt)
  have half: "p powr 0.5 = sqrt p"
    using assms by (simp add: powr_half_sqrt)
  have "(c1 * a * D / sqrt p) * (c2 * a * p) = c1 * c2 * (a * a) * D * (p / sqrt p)"
    by simp
  then show ?thesis
    by (simp only: root half power2_eq_square)
qed


section \<open>The range\<close>


lemma round32_inside:
  "f32_tiny < \<bar>x\<bar> \<Longrightarrow> \<bar>x\<bar> < f32_overflow \<Longrightarrow> round32 (Some x) = Some x"
  by (simp add: round32_def)

lemma round32_underflow:
  "\<bar>x\<bar> \<le> f32_tiny \<Longrightarrow> round32 (Some x) = Some 0"
  by (simp add: round32_def f32_tiny_def f32_overflow_def)

lemma round32_overflow:
  "f32_overflow \<le> \<bar>x\<bar> \<Longrightarrow> round32 (Some x) = None"
  by (simp add: round32_def)

lemma round32_zero: "round32 (Some 0) = Some 0"
  by (simp add: round32_underflow f32_tiny_def)

text \<open>The two ends of the range, at the last number kept and the first one lost.\<close>

lemma round32_edges:
  "round32 (Some (2 ^ 128 - 2 ^ 104)) = Some (2 ^ 128 - 2 ^ 104)"
  "round32 (Some (2 ^ 128 - 2 ^ 103)) = None"
  "round32 (Some (1 / 2 ^ 149)) = Some (1 / 2 ^ 149)"
  "round32 (Some (1 / 2 ^ 150)) = Some 0"
  by (simp_all add: round32_def f32_overflow_def f32_tiny_def)

lemma f32_tiny_bound: "f32_tiny < 1 / 10 ^ 45"
  by (simp add: f32_tiny_def)

lemma f32_overflow_bound: "10 ^ 38 < f32_overflow"
  by (simp add: f32_overflow_def)

lemma round32_middle:
  assumes "1 / 10 ^ 45 \<le> \<bar>x\<bar>" and "\<bar>x\<bar> \<le> 10 ^ 38"
  shows "round32 (Some x) = Some x"
  using assms f32_tiny_bound f32_overflow_bound by (intro round32_inside) linarith+







section \<open>Order of magnitudes\<close>

lemma below_refl: "below u u"
  by (simp add: below_def split: option.splits)

lemma below_Some: "below (Some a) (Some b) \<longleftrightarrow> \<bar>a\<bar> \<le> \<bar>b\<bar>"
  by (simp add: below_def)

lemma below_SomeD:
  "below u (Some y) \<Longrightarrow> \<exists>x. u = Some x \<and> \<bar>x\<bar> \<le> \<bar>y\<bar>"
  by (cases u) (simp_all add: below_def)

lemma below_fmul:
  assumes "below u v" and "below u' v'"
  shows "below (fmul u u') (fmul v v')"
proof (cases "fmul v v'")
  case None
  then show ?thesis by (simp add: below_def)
next
  case (Some t)
  then obtain y y' where v: "v = Some y" "v' = Some y'"
    by (auto simp add: fmul_Some_iff)
  with assms obtain x x' where u: "u = Some x" "\<bar>x\<bar> \<le> \<bar>y\<bar>" "u' = Some x'" "\<bar>x'\<bar> \<le> \<bar>y'\<bar>"
    by (blast dest: below_SomeD)
  then have "\<bar>x\<bar> * \<bar>x'\<bar> \<le> \<bar>y\<bar> * \<bar>y'\<bar>"
    by (intro mult_mono) simp_all
  then show ?thesis
    using u v by (simp add: fmul_def below_def abs_mult)
qed

lemma below_fdiv:
  assumes "below u v"
  shows "below (fdiv u w) (fdiv v w)"
proof (cases "fdiv v w")
  case None
  then show ?thesis by (simp add: below_def)
next
  case (Some t)
  then obtain y q where v: "v = Some y" "w = Some q" "q \<noteq> 0"
    by (auto simp add: fdiv_Some_iff)
  with assms obtain x where u: "u = Some x" "\<bar>x\<bar> \<le> \<bar>y\<bar>"
    by (blast dest: below_SomeD)
  then have "\<bar>x\<bar> / \<bar>q\<bar> \<le> \<bar>y\<bar> / \<bar>q\<bar>"
    by (intro divide_right_mono) simp_all
  then show ?thesis
    using u v by (simp add: fdiv_def below_def)
qed

lemma below_round32:
  assumes "below u v"
  shows "below (round32 u) (round32 v)"
proof (cases "round32 v")
  case None
  then show ?thesis by (simp add: below_def)
next
  case (Some t)
  then obtain y where v: "v = Some y" and y: "\<bar>y\<bar> < f32_overflow"
    by (cases v) (auto simp add: round32_def split: if_splits)
  with assms obtain x where u: "u = Some x" "\<bar>x\<bar> \<le> \<bar>y\<bar>"
    by (blast dest: below_SomeD)
  show ?thesis
    using u v y by (auto simp add: round32_def below_def)
qed

lemma below_mul32:
  "below u v \<Longrightarrow> below u' v' \<Longrightarrow> below (mul32 u u') (mul32 v v')"
  by (simp add: mul32_def below_round32 below_fmul)

lemma below_div32:
  "below u v \<Longrightarrow> below (div32 u w) (div32 v w)"
  by (simp add: div32_def below_round32 below_fdiv)

lemma below_thrust_elem32:
  assumes "below sp1 sp2"
  shows "below (thrust_elem32 sp1 d p) (thrust_elem32 sp2 d p)"
  unfolding thrust_elem32_def
  by (intro below_mul32 below_div32 below_refl assms)

section \<open>One call of set_speed\<close>

lemma tensor_binop_same:
  "length xs = length ys \<Longrightarrow> tensor_binop f xs ys = Inr (map2 f xs ys)"
  by (simp add: tensor_binop_def)

lemma thrust_first_same:
  assumes "length (dia s) = length (speed s)" and "length (pitch s) = length (speed s)"
  shows "thrust_first s = Inr (map (\<lambda>i. div32 (mul32 (mul32 (Some (4.392 / 10 ^ 8)) (speed s ! i))
                                                (pow32 (dia s ! i) 3.5))
                                          (sqrt32 (pitch s ! i)))
                              [0..<length (speed s)])"
  using assms
  by (auto simp add: thrust_first_def tensor_mul_def tensor_div_def tensor_binop_same
      scalar_mul_def torch_pow_def torch_sqrt_def intro!: nth_equalityI)

lemma thrust_second_same:
  assumes "length (thrust s) = length (speed s)" and "length (pitch s) = length (speed s)"
  shows "thrust_second s = Inr (map (\<lambda>i. mul32 (thrust s ! i)
                                          (mul32 (mul32 (Some (4.23 / 10 ^ 4)) (speed s ! i))
                                                 (pitch s ! i)))
                               [0..<length (speed s)])"
  using assms
  by (auto simp add: thrust_second_def tensor_mul_def tensor_binop_same
      scalar_mul_def intro!: nth_equalityI)

lemma set_speed_same:
  assumes "int (length sp) = n s" and "length (dia s) = length sp"
    and "length (pitch s) = length sp"
  shows "set_speed s sp = (Inr (), s\<lparr>speed := sp,
           thrust := map (\<lambda>i. thrust_elem32 (sp ! i) (dia s ! i) (pitch s ! i))
                       [0..<length sp]\<rparr>)"
  using assms
  by (simp add: set_speed_def Let_def thrust_first_same thrust_second_same thrust_elem32_def)

lemma set_speed_reject:
  "int (length sp) \<noteq> n s \<Longrightarrow>
   set_speed s sp = (Inl (ValueError (''Shape of speed ('' @ str_shape sp
           @ '') not equal to n_propellers ('' @ str_int (n s) @ '').'')), s)"
  by (simp add: set_speed_def)

section \<open>Objects made by the constructor\<close>

lemma torch_tensor_Inr:
  "torch_tensor xs = Inr t \<Longrightarrow> t = map to_f32 xs"
  by (auto simp add: torch_tensor_def split: if_splits)

lemma init_Inr:
  assumes "Propellers_init cnt ds ps = Inr s"
  shows "int (length ds) = cnt \<and> int (length ps) = cnt
       \<and> torch_tensor ds = Inr (map to_f32 ds) \<and> torch_tensor ps = Inr (map to_f32 ps)
       \<and> s = \<lparr>n = cnt, dia = scalar_mul 39.37 (map to_f32 ds),
               pitch = scalar_mul 39.37 (map to_f32 ps),
               speed = torch_zeros (nat cnt), thrust = torch_zeros (nat cnt)\<rparr>"
  using assms
  by (auto simp add: Propellers_init_def split: if_splits sum.splits dest: torch_tensor_Inr)

lemma init_built:
  "Propellers_init cnt ds ps = Inr s \<Longrightarrow> built cnt ds ps s"
  by (drule init_Inr) (auto simp add: built_def scalar_mul_def torch_zeros_def)

lemma set_speed_built_ok:
  assumes "built cnt ds ps s" and "int (length sp) = cnt"
  shows "set_speed s sp = (Inr (), s\<lparr>speed := sp,
           thrust := map (\<lambda>i. thrust_elem32 (sp ! i) (mul32 (Some 39.37) (to_f32 (ds ! i)))
                                            (mul32 (Some 39.37) (to_f32 (ps ! i))))
                       [0..<length sp]\<rparr>)"
proof -
  have len: "length ds = length sp" "length ps = length sp"
    using assms by (simp_all add: built_def)
  have "set_speed s sp = (Inr (), s\<lparr>speed := sp,
           thrust := map (\<lambda>i. thrust_elem32 (sp ! i) (dia s ! i) (pitch s ! i))
                       [0..<length sp]\<rparr>)"
    using assms len by (intro set_speed_same) (simp_all add: built_def)
  moreover have "map (\<lambda>i. thrust_elem32 (sp ! i) (dia s ! i) (pitch s ! i)) [0..<length sp]
     = map (\<lambda>i. thrust_elem32 (sp ! i) (mul32 (Some 39.37) (to_f32 (ds ! i)))
                              (mul32 (Some 39.37) (to_f32 (ps ! i))))
         [0..<length sp]"
    using assms(1) len by (simp add: built_def)
  ultimately show ?thesis by simp
qed

lemma set_speed_built:
  assumes "built cnt ds ps s"
  shows "built cnt ds ps (snd (set_speed s sp))"
proof (cases "int (length sp) = cnt")
  case True
  then show ?thesis
    using assms by (simp add: set_speed_built_ok [OF assms True]) (simp add: built_def)
next
  case False
  then have "int (length sp) \<noteq> n s" using assms by (simp add: built_def)
  then show ?thesis using assms by (simp add: set_speed_reject)
qed

lemma run_built:
  "built cnt ds ps s \<Longrightarrow> built cnt ds ps (run s calls)"
  by (induction calls arbitrary: s) (simp_all add: set_speed_built)

lemma init_run_built:
  "Propellers_init cnt ds ps = Inr s0 \<Longrightarrow> built cnt ds ps (run s0 calls)"
  by (simp add: init_built run_built)

section \<open>The geometry of the example: diameter 3 m, pitch 2 m\<close>

lemma powr_three_and_half:
  fixes x :: real
  assumes "0 < x"
  shows "x powr 3.5 = x ^ 3 * sqrt x"
proof -
  have "x powr 3.5 = x powr (3 + 1 / 2)"
    by simp
  also have "\<dots> = x powr 3 * x powr (1 / 2)"
    by (simp only: powr_add)
  also have "x powr 3 = x ^ 3"
    using assms by (simp add: powr_numeral)
  also have "x powr (1 / 2) = sqrt x"
    using assms by (simp add: powr_half_sqrt)
  finally show ?thesis .
qed

lemma sqrt_dia_bounds: "10 \<le> sqrt (118.11::real)" "sqrt (118.11::real) \<le> 11"
  by (rule real_le_rsqrt, simp) (rule real_le_lsqrt, simp_all)

lemma sqrt_pitch_bounds: "8 \<le> sqrt (78.74::real)" "sqrt (78.74::real) \<le> 9"
  by (rule real_le_rsqrt, simp) (rule real_le_lsqrt, simp_all)

lemma pow_dia_bounds: "10 ^ 7 \<le> (118.11::real) powr 3.5" "(118.11::real) powr 3.5 \<le> 2 * 10 ^ 7"
proof -
  have eq: "(118.11::real) powr 3.5 = 118.11 ^ 3 * sqrt 118.11"
    by (rule powr_three_and_half) simp
  have c: "(118.11::real) ^ 3 = 1647631.204731"
    by (simp add: power3_eq_cube)
  show "10 ^ 7 \<le> (118.11::real) powr 3.5" "(118.11::real) powr 3.5 \<le> 2 * 10 ^ 7"
    using sqrt_dia_bounds unfolding eq c by simp_all
qed

lemma thrust_elem32_steps:
  assumes "0 \<le> d" and "0 \<le> p"
    and m1: "round32 (Some (4.392 / 10 ^ 8 * a)) = Some (4.392 / 10 ^ 8 * a)"
    and D: "round32 (Some (d powr 3.5)) = Some (d powr 3.5)"
    and m2: "round32 (Some (4.392 / 10 ^ 8 * a * d powr 3.5)) = Some (4.392 / 10 ^ 8 * a * d powr 3.5)"
    and q: "round32 (Some (sqrt p)) = Some (sqrt p)" and q0: "sqrt p \<noteq> 0"
    and m3: "round32 (Some (4.392 / 10 ^ 8 * a * d powr 3.5 / sqrt p))
             = Some (4.392 / 10 ^ 8 * a * d powr 3.5 / sqrt p)"
    and n1: "round32 (Some (4.23 / 10 ^ 4 * a)) = Some (4.23 / 10 ^ 4 * a)"
    and n2: "round32 (Some (4.23 / 10 ^ 4 * a * p)) = Some (4.23 / 10 ^ 4 * a * p)"
  shows "thrust_elem32 (Some a) (Some d) (Some p)
         = round32 (Some ((4.392 / 10 ^ 8 * a * d powr 3.5 / sqrt p) * (4.23 / 10 ^ 4 * a * p)))"
proof -
  have s1: "mul32 (Some (4.392 / 10 ^ 8)) (Some a) = Some (4.392 / 10 ^ 8 * a)"
    using m1 by (simp add: mul32_def fmul_def)
  have s2: "pow32 (Some d) 3.5 = Some (d powr 3.5)"
    using D assms(1) by (simp add: pow32_def fpow_def)
  have s3: "mul32 (Some (4.392 / 10 ^ 8 * a)) (Some (d powr 3.5))
            = Some (4.392 / 10 ^ 8 * a * d powr 3.5)"
    using m2 by (simp add: mul32_def fmul_def)
  have s4: "sqrt32 (Some p) = Some (sqrt p)"
    using q assms(2) by (simp add: sqrt32_def fsqrt_def)
  have s5: "div32 (Some (4.392 / 10 ^ 8 * a * d powr 3.5)) (Some (sqrt p))
            = Some (4.392 / 10 ^ 8 * a * d powr 3.5 / sqrt p)"
    using m3 q0 by (simp add: div32_def fdiv_def)
  have s6: "mul32 (Some (4.23 / 10 ^ 4)) (Some a) = Some (4.23 / 10 ^ 4 * a)"
    using n1 by (simp add: mul32_def fmul_def)
  have s7: "mul32 (Some (4.23 / 10 ^ 4 * a)) (Some p) = Some (4.23 / 10 ^ 4 * a * p)"
    using n2 by (simp add: mul32_def fmul_def)
  show ?thesis
    unfolding thrust_elem32_def s1 s2 s3 s4 s5 s6 s7
    by (simp only: mul32_def fmul_def option.case)
qed

lemma round32_between:
  assumes "l \<le> x" and "x \<le> h" and "1 / 10 ^ 45 \<le> l" and "h \<le> 10 ^ 38"
  shows "round32 (Some x) = Some x"
proof (rule round32_middle)
  have "0 < x" using assms(1,3) by (simp add: less_le_trans [of 0 "1 / 10 ^ 45"] order_trans [of _ l])
  then show "1 / 10 ^ 45 \<le> \<bar>x\<bar>" "\<bar>x\<bar> \<le> 10 ^ 38"
    using assms by simp_all
qed

text \<open>
  For the geometry of the example no step leaves the range as long as the speed is
  between \<open>1e-30\<close> and \<open>1e35\<close>; only the last product can.
\<close>

lemma example_thrust:
  assumes lo: "1 / 10 ^ 30 \<le> a" and hi: "a \<le> 10 ^ 35"
  shows "thrust_elem32 (Some a) (Some 118.11) (Some 78.74)
         = round32 (Some ((4.392 / 10 ^ 8 * a * 118.11 powr 3.5 / sqrt 78.74)
                          * (4.23 / 10 ^ 4 * a * 78.74)))"
proof -
  let ?D = "(118.11::real) powr 3.5" and ?q = "sqrt (78.74::real)"
  note Db = pow_dia_bounds and qb = sqrt_pitch_bounds
  have a0: "0 < a" using lo by (rule less_le_trans [rotated]) simp
  have m1: "4.392 / 10 ^ 38 \<le> 4.392 / 10 ^ 8 * a" "4.392 / 10 ^ 8 * a \<le> 4.392 * 10 ^ 27"
    using lo hi by simp_all
  have m2lo: "4.392 / 10 ^ 38 * 10 ^ 7 \<le> 4.392 / 10 ^ 8 * a * ?D"
    using m1(1) Db(1) by (rule mult_mono) (use a0 in simp_all)
  have m2hi: "4.392 / 10 ^ 8 * a * ?D \<le> 4.392 * 10 ^ 27 * (2 * 10 ^ 7)"
    using m1(2) Db(2) by (rule mult_mono) (use a0 Db in simp_all)
  have q0: "0 < ?q" using qb(1) by linarith
  have m3lo: "4.392 / 10 ^ 38 * 10 ^ 7 / 9 \<le> 4.392 / 10 ^ 8 * a * ?D / ?q"
    using _ m2lo q0 qb(2) by (rule frac_le) (use a0 in simp)
  have m3hi: "4.392 / 10 ^ 8 * a * ?D / ?q \<le> 4.392 * 10 ^ 27 * (2 * 10 ^ 7) / 8"
    using _ m2hi _ qb(1) by (rule frac_le) simp_all
  have r1: "round32 (Some (4.392 / 10 ^ 8 * a)) = Some (4.392 / 10 ^ 8 * a)"
    by (rule round32_between [OF m1]) simp_all
  have r2: "round32 (Some ?D) = Some ?D"
    by (rule round32_between [OF Db]) simp_all
  have r3: "round32 (Some (4.392 / 10 ^ 8 * a * ?D)) = Some (4.392 / 10 ^ 8 * a * ?D)"
    by (rule round32_between [OF m2lo m2hi]) simp_all
  have r4: "round32 (Some ?q) = Some ?q"
    by (rule round32_between [OF qb]) simp_all
  have r5: "round32 (Some (4.392 / 10 ^ 8 * a * ?D / ?q)) = Some (4.392 / 10 ^ 8 * a * ?D / ?q)"
    by (rule round32_between [OF m3lo m3hi]) simp_all
  have n1: "4.23 / 10 ^ 34 \<le> 4.23 / 10 ^ 4 * a" "4.23 / 10 ^ 4 * a \<le> 4.23 * 10 ^ 31"
    using lo hi by simp_all
  have n2: "4.23 / 10 ^ 34 \<le> 4.23 / 10 ^ 4 * a * 78.74" "4.23 / 10 ^ 4 * a * 78.74 \<le> 4.23 * 10 ^ 33"
    using lo hi by simp_all
  have r6: "round32 (Some (4.23 / 10 ^ 4 * a)) = Some (4.23 / 10 ^ 4 * a)"
    by (rule round32_between [OF n1]) simp_all
  have r7: "round32 (Some (4.23 / 10 ^ 4 * a * 78.74)) = Some (4.23 / 10 ^ 4 * a * 78.74)"
    by (rule round32_between [OF n2]) simp_all
  show ?thesis
    using r1 r2 r3 r4 _ r5 r6 r7 by (intro thrust_elem32_steps) (use q0 in simp_all)
qed

lemma example_formula:
  fixes a :: real
  shows "1 / 10 ^ 3 * a\<^sup>2 \<le> (4.392 / 10 ^ 8 * a * 118.11 powr 3.5 / sqrt 78.74)
                                * (4.23 / 10 ^ 4 * a * 78.74)"
    and "(4.392 / 10 ^ 8 * a * 118.11 powr 3.5 / sqrt 78.74) * (4.23 / 10 ^ 4 * a * 78.74)
         \<le> 1 / 10 ^ 2 * a\<^sup>2"
proof -
  define R where "R = (118.11::real) powr 3.5 / sqrt 78.74"
  define K where "K = 4.392 / 10 ^ 8 * (4.23 / 10 ^ 4 * 78.74) * R"
  have q0: "0 < sqrt (78.74::real)" using sqrt_pitch_bounds(1) by linarith
  have Rlo: "10 ^ 7 / 9 \<le> R"
    unfolding R_def using _ pow_dia_bounds(1) q0 sqrt_pitch_bounds(2) by (rule frac_le) simp
  have Rhi: "R \<le> 2 * 10 ^ 7 / 8"
    unfolding R_def using _ pow_dia_bounds(2) _ sqrt_pitch_bounds(1) by (rule frac_le) simp_all
  have K: "1 / 10 ^ 3 \<le> K" "K \<le> 1 / 10 ^ 2"
    unfolding K_def using Rlo Rhi by simp_all
  have eq: "(4.392 / 10 ^ 8 * a * 118.11 powr 3.5 / sqrt 78.74) * (4.23 / 10 ^ 4 * a * 78.74)
            = K * a\<^sup>2"
    unfolding K_def R_def by (simp add: power2_eq_square)
  show "1 / 10 ^ 3 * a\<^sup>2 \<le> (4.392 / 10 ^ 8 * a * 118.11 powr 3.5 / sqrt 78.74)
                                * (4.23 / 10 ^ 4 * a * 78.74)"
    unfolding eq using K(1) by (rule mult_right_mono) simp
  show "(4.392 / 10 ^ 8 * a * 118.11 powr 3.5 / sqrt 78.74) * (4.23 / 10 ^ 4 * a * 78.74)
         \<le> 1 / 10 ^ 2 * a\<^sup>2"
    unfolding eq using K(2) by (rule mult_right_mono) simp
qed

lemma example_thrust_value:
  assumes "1 \<le> a" and "a \<le> 10 ^ 4"
  shows "thrust_elem32 (Some a) (Some 118.11) (Some 78.74)
         = Some ((4.392 / 10 ^ 8 * a * 118.11 powr 3.5 / sqrt 78.74)
                 * (4.23 / 10 ^ 4 * a * 78.74))"
proof -
  define t where "t = (4.392 / 10 ^ 8 * a * 118.11 powr 3.5 / sqrt 78.74)
                      * (4.23 / 10 ^ 4 * a * 78.74)"
  define b where "b = a\<^sup>2"
  have "1\<^sup>2 \<le> a\<^sup>2" "a\<^sup>2 \<le> (10 ^ 4)\<^sup>2"
    using assms by (intro power_mono; simp)+
  then have sq: "1 \<le> b" "b \<le> 10 ^ 8"
    by (simp_all add: b_def)
  have f: "1 / 10 ^ 3 * b \<le> t" "t \<le> 1 / 10 ^ 2 * b"
    unfolding t_def b_def by (rule example_formula)+
  have lo: "1 / 10 ^ 3 \<le> t" and hi: "t \<le> 10 ^ 6"
    using f sq by simp_all
  have "thrust_elem32 (Some a) (Some 118.11) (Some 78.74) = round32 (Some t)"
    unfolding t_def using assms by (intro example_thrust) simp_all
  also have "\<dots> = Some t"
    by (rule round32_between [OF lo hi]) simp_all
  finally show ?thesis
    by (simp only: t_def)
qed

lemma example_thrust_underflow:
  assumes "1 / 10 ^ 30 \<le> a" and "a \<le> 1 / 10 ^ 25"
  shows "thrust_elem32 (Some a) (Some 118.11) (Some 78.74) = Some 0"
proof -
  define t where "t = (4.392 / 10 ^ 8 * a * 118.11 powr 3.5 / sqrt 78.74)
                      * (4.23 / 10 ^ 4 * a * 78.74)"
  define b where "b = a\<^sup>2"
  have a0: "0 \<le> a" using assms(1) by (rule order_trans [rotated]) simp
  have "a\<^sup>2 \<le> (1 / 10 ^ 25)\<^sup>2"
    using assms(2) a0 by (rule power_mono)
  then have sq: "0 \<le> b" "b \<le> 1 / 10 ^ 50"
    by (simp_all add: b_def power_divide)
  have f: "1 / 10 ^ 3 * b \<le> t" "t \<le> 1 / 10 ^ 2 * b"
    unfolding t_def b_def by (rule example_formula)+
  have "0 \<le> t" "t \<le> 1 / 10 ^ 52"
    using f sq by simp_all
  then have "\<bar>t\<bar> \<le> f32_tiny"
    by (simp add: f32_tiny_def)
  then have "round32 (Some t) = Some 0"
    by (rule round32_underflow)
  moreover have "thrust_elem32 (Some a) (Some 118.11) (Some 78.74) = round32 (Some t)"
    unfolding t_def using assms by (intro example_thrust) simp_all
  ultimately show ?thesis by simp
qed

lemma example_thrust_overflow:
  assumes "10 ^ 30 \<le> a" and "a \<le> 10 ^ 35"
  shows "thrust_elem32 (Some a) (Some 118.11) (Some 78.74) = None"
proof -
  define t where "t = (4.392 / 10 ^ 8 * a * 118.11 powr 3.5 / sqrt 78.74)
                      * (4.23 / 10 ^ 4 * a * 78.74)"
  define b where "b = a\<^sup>2"
  have "(10 ^ 30)\<^sup>2 \<le> a\<^sup>2"
    using assms(1) by (intro power_mono) simp_all
  then have sq: "10 ^ 60 \<le> b"
    by (simp add: b_def)
  have f: "1 / 10 ^ 3 * b \<le> t"
    unfolding t_def b_def by (rule example_formula)
  have "10 ^ 57 \<le> t"
    using f sq by simp
  then have "f32_overflow \<le> \<bar>t\<bar>"
    by (simp add: f32_overflow_def)
  then have "round32 (Some t) = None"
    by (rule round32_overflow)
  moreover have "thrust_elem32 (Some a) (Some 118.11) (Some 78.74) = round32 (Some t)"
    unfolding t_def using assms by (intro example_thrust) simp_all
  ultimately show ?thesis by simp
qed

lemma example_object:
  "Propellers_init 1 [PyInt 3] [PyInt 2]
     = Inr \<lparr>n = 1, dia = [Some 118.11], pitch = [Some 78.74],
            speed = [Some 0], thrust = [Some 0]\<rparr>"
  by (simp add: Propellers_init_def torch_tensor_def is_int_def int64_ok_def to_f32_def
      py_value_def scalar_mul_def mul32_def fmul_def round32_def f32_overflow_def f32_tiny_def
      torch_zeros_def)

section \<open>What torch.tensor accepts\<close>

lemma int64_ok_double_ok: "int64_ok x \<Longrightarrow> double_ok x"
  by (cases x) (auto simp add: int64_ok_def double_ok_def)

lemma torch_tensor_isl:
  "isl (torch_tensor xs)
   \<longleftrightarrow> (if xs \<noteq> [] \<and> list_all is_int xs then \<not> list_all int64_ok xs
        else \<not> list_all double_ok xs)"
  by (simp add: torch_tensor_def)

lemma torch_tensor_accepts:
  "list_all int64_ok xs \<Longrightarrow> torch_tensor xs = Inr (map to_f32 xs)"
  by (auto simp add: torch_tensor_def list_all_iff dest: int64_ok_double_ok)

lemma torch_tensor_not_isl:
  "\<not> isl (torch_tensor xs) \<Longrightarrow> torch_tensor xs = Inr (map to_f32 xs)"
  by (auto simp add: torch_tensor_def split: if_splits)

lemma inch_value:
  assumes "py_value x = Some v" and "1 / 10 ^ 36 \<le> \<bar>v\<bar>" and "\<bar>v\<bar> \<le> 10 ^ 36"
  shows "mul32 (Some 39.37) (to_f32 x) = Some (v * 39.37)"
proof -
  have "round32 (Some v) = Some v"
    using assms(2,3) by (intro round32_middle) simp_all
  moreover have "round32 (Some (39.37 * v)) = Some (39.37 * v)"
    using assms(2,3) by (intro round32_middle) (simp_all add: abs_mult)
  ultimately show ?thesis
    using assms(1) by (simp add: to_f32_def mul32_def fmul_def mult.commute)
qed

lemma init_accepted:
  assumes "int (length ds) = cnt" and "int (length ps) = cnt"
    and "\<not> isl (torch_tensor ds)" and "\<not> isl (torch_tensor ps)"
  shows "Propellers_init cnt ds ps
         = Inr \<lparr>n = cnt, dia = map (\<lambda>x. mul32 (Some 39.37) (to_f32 x)) ds,
                pitch = map (\<lambda>x. mul32 (Some 39.37) (to_f32 x)) ps,
                speed = replicate (nat cnt) (Some 0), thrust = replicate (nat cnt) (Some 0)\<rparr>"
  using assms
  by (simp add: Propellers_init_def torch_tensor_not_isl scalar_mul_def torch_zeros_def)

lemma init_isl:
  "isl (Propellers_init cnt ds ps)
   \<longleftrightarrow> (int (length ds) \<noteq> cnt \<or> int (length ps) \<noteq> cnt
        \<or> isl (torch_tensor ds) \<or> isl (torch_tensor ps))"
  by (auto simp add: Propellers_init_def split: sum.splits)

section \<open>A thrust that is finite and not zero\<close>



section \<open>Calls on the example object\<close>

lemma example_inches:
  "mul32 (Some 39.37) (to_f32 (PyInt 3)) = Some 118.11"
  "mul32 (Some 39.37) (to_f32 (PyInt 2)) = Some 78.74"
proof -
  have "mul32 (Some 39.37) (to_f32 (PyInt 3)) = Some (3 * 39.37)"
    "mul32 (Some 39.37) (to_f32 (PyInt 2)) = Some (2 * 39.37)"
    by (rule inch_value; simp add: py_value_def)+
  then show "mul32 (Some 39.37) (to_f32 (PyInt 3)) = Some 118.11"
    "mul32 (Some 39.37) (to_f32 (PyInt 2)) = Some 78.74"
    by simp_all
qed

lemma example_set_speed:
  "thrust (snd (set_speed (run \<lparr>n = 1, dia = [Some 118.11], pitch = [Some 78.74],
                                speed = [Some 0], thrust = [Some 0]\<rparr> calls) [sp])) ! 0
   = thrust_elem32 sp (Some 118.11) (Some 78.74)"
proof -
  have b: "built 1 [PyInt 3] [PyInt 2]
             (run \<lparr>n = 1, dia = [Some 118.11], pitch = [Some 78.74],
                   speed = [Some 0], thrust = [Some 0]\<rparr> calls)"
    using example_object by (rule init_run_built)
  have len: "int (length [sp]) = 1"
    by simp
  show ?thesis
    unfolding set_speed_built_ok [OF b len] by (simp add: example_inches [simplified])
qed

lemma sqrt_inch_bounds: "6 \<le> sqrt (39.37::real)" "sqrt (39.37::real) \<le> 7"
  by (rule real_le_rsqrt, simp) (rule real_le_lsqrt, simp_all)

lemma thrust_elem32_None: "thrust_elem32 None d p = None"
  by (simp add: thrust_elem32_def mul32_def div32_def fmul_def fdiv_def round32_def)

lemma zero_dia_thrust:
  assumes "1 \<le> a" and "a \<le> 10 ^ 4"
  shows "thrust_elem32 (Some a) (Some 0) (Some 39.37) = Some 0"
proof -
  have q: "round32 (Some (sqrt (39.37::real))) = Some (sqrt 39.37)"
    by (rule round32_between [OF sqrt_inch_bounds]) simp_all
  have q0: "sqrt (39.37::real) \<noteq> 0"
    using sqrt_inch_bounds(1) by linarith
  have m1: "round32 (Some (4.392 / 10 ^ 8 * a)) = Some (4.392 / 10 ^ 8 * a)"
    using assms by (intro round32_between [of "4.392 / 10 ^ 8" _ "4.392 / 10 ^ 4"]) simp_all
  have n1: "round32 (Some (4.23 / 10 ^ 4 * a)) = Some (4.23 / 10 ^ 4 * a)"
    using assms by (intro round32_between [of "4.23 / 10 ^ 4" _ "4.23"]) simp_all
  have n2: "round32 (Some (4.23 / 10 ^ 4 * a * 39.37)) = Some (4.23 / 10 ^ 4 * a * 39.37)"
    using assms by (intro round32_between [of "4.23 / 10 ^ 4" _ "423"]) simp_all
  have "thrust_elem32 (Some a) (Some 0) (Some 39.37)
        = round32 (Some ((4.392 / 10 ^ 8 * a * 0 powr 3.5 / sqrt 39.37)
                         * (4.23 / 10 ^ 4 * a * 39.37)))"
    using m1 q q0 n1 n2 by (intro thrust_elem32_steps) (simp_all add: round32_zero)
  then show ?thesis
    by (simp add: round32_zero)
qed

section \<open>Construction\<close>

text \<open>
  C3, as the program has it: for a positive count and lists of diameters and of
  pitches of that length that \<open>torch.tensor\<close> accepts, construction succeeds; the
  stored diameters and pitches are the floating-point products of the inputs and
  39.37, which is the input times 39.37 for a magnitude between \<open>1e-36\<close> and \<open>1e36\<close>;
  speed and thrust are vectors of count zeros.
\<close>

theorem init_matching_lengths:
  assumes "0 < cnt" and "int (length ds) = cnt" and "int (length ps) = cnt"
    and "\<not> isl (torch_tensor ds)" and "\<not> isl (torch_tensor ps)"
  shows "\<exists>s. Propellers_init cnt ds ps = Inr s
           \<and> n s = cnt
           \<and> dia s = map (\<lambda>x. mul32 (Some 39.37) (to_f32 x)) ds
           \<and> pitch s = map (\<lambda>x. mul32 (Some 39.37) (to_f32 x)) ps
           \<and> speed s = replicate (nat cnt) (Some 0)
           \<and> thrust s = replicate (nat cnt) (Some 0)
           \<and> (\<forall>i<length ds. \<forall>v. py_value (ds ! i) = Some v
                  \<and> 1 / 10 ^ 36 \<le> \<bar>v\<bar> \<and> \<bar>v\<bar> \<le> 10 ^ 36
                \<longrightarrow> dia s ! i = Some (v * 39.37))
           \<and> (\<forall>i<length ps. \<forall>v. py_value (ps ! i) = Some v
                  \<and> 1 / 10 ^ 36 \<le> \<bar>v\<bar> \<and> \<bar>v\<bar> \<le> 10 ^ 36
                \<longrightarrow> pitch s ! i = Some (v * 39.37))"
proof -
  let ?s = "\<lparr>n = cnt, dia = map (\<lambda>x. mul32 (Some 39.37) (to_f32 x)) ds,
             pitch = map (\<lambda>x. mul32 (Some 39.37) (to_f32 x)) ps,
             speed = replicate (nat cnt) (Some 0), thrust = replicate (nat cnt) (Some 0)\<rparr>"
  have made: "Propellers_init cnt ds ps = Inr ?s"
    using assms(2-5) by (rule init_accepted)
  have stored: "(map (\<lambda>x. mul32 (Some 39.37) (to_f32 x)) xs) ! i = Some (v * 39.37)"
    if "i < length xs" and "py_value (xs ! i) = Some v \<and> 1 / 10 ^ 36 \<le> \<bar>v\<bar> \<and> \<bar>v\<bar> \<le> 10 ^ 36"
    for xs i v
  proof -
    have "mul32 (Some 39.37) (to_f32 (xs ! i)) = Some (v * 39.37)"
      using that(2) by (intro inch_value) (elim conjE, assumption)+
    then show ?thesis
      using that(1) by (simp only: nth_map)
  qed
  have "\<forall>i<length ds. \<forall>v. py_value (ds ! i) = Some v
                  \<and> 1 / 10 ^ 36 \<le> \<bar>v\<bar> \<and> \<bar>v\<bar> \<le> 10 ^ 36
                \<longrightarrow> dia ?s ! i = Some (v * 39.37)"
    using stored [of _ ds] by (simp only: propellers.simps) blast
  moreover have "\<forall>i<length ps. \<forall>v. py_value (ps ! i) = Some v
                  \<and> 1 / 10 ^ 36 \<le> \<bar>v\<bar> \<and> \<bar>v\<bar> \<le> 10 ^ 36
                \<longrightarrow> pitch ?s ! i = Some (v * 39.37)"
    using stored [of _ ps] by (simp only: propellers.simps) blast
  ultimately show ?thesis
    using made by (intro exI [of _ ?s]) (simp only: propellers.simps simp_thms)
qed

theorem init_matching_lengths_witness:
  "\<exists>s. Propellers_init 2 [PyInt 3, PyInt 3] [PyFloat (Some 2), PyFloat (Some 2)] = Inr s
     \<and> n s = 2
     \<and> dia s = [Some 118.11, Some 118.11]
     \<and> pitch s = [Some 78.74, Some 78.74]
     \<and> speed s = [Some 0, Some 0]
     \<and> thrust s = [Some 0, Some 0]"
proof -
  have d: "\<not> isl (torch_tensor [PyInt 3, PyInt 3])"
    by (simp add: torch_tensor_isl is_int_def int64_ok_def)
  have p: "\<not> isl (torch_tensor [PyFloat (Some 2), PyFloat (Some 2)])"
    by (simp add: torch_tensor_isl is_int_def double_ok_def)
  have "mul32 (Some 39.37) (to_f32 (PyInt 3)) = Some (3 * 39.37)"
    "mul32 (Some 39.37) (to_f32 (PyFloat (Some 2))) = Some (2 * 39.37)"
    by (rule inch_value; simp add: py_value_def)+
  then have v: "mul32 (Some 39.37) (to_f32 (PyInt 3)) = Some 118.11"
    "mul32 (Some 39.37) (to_f32 (PyFloat (Some 2))) = Some 78.74"
    by simp_all
  from init_matching_lengths [of 2 "[PyInt 3, PyInt 3]" "[PyFloat (Some 2), PyFloat (Some 2)]", OF _ _ _ d p]
  obtain s where "Propellers_init 2 [PyInt 3, PyInt 3] [PyFloat (Some 2), PyFloat (Some 2)] = Inr s"
    "n s = 2" "dia s = map (\<lambda>x. mul32 (Some 39.37) (to_f32 x)) [PyInt 3, PyInt 3]"
    "pitch s = map (\<lambda>x. mul32 (Some 39.37) (to_f32 x)) [PyFloat (Some 2), PyFloat (Some 2)]"
    "speed s = replicate (nat 2) (Some 0)" "thrust s = replicate (nat 2) (Some 0)"
    by auto
  then show ?thesis
    using v by (simp add: numeral_2_eq_2)
qed

theorem init_matching_lengths_counterexample:
  "(0::int) < 1 \<and> int (length [PyInt (2 ^ 63)]) = 1 \<and> int (length [PyInt 0]) = 1
   \<and> isl (Propellers_init 1 [PyInt (2 ^ 63)] [PyInt 0])"
  by (simp add: Propellers_init_def torch_tensor_def is_int_def int64_ok_def)

text \<open>
  C4, as the program has it: construction fails with a \<open>ValueError\<close> when the number
  of diameters differs from the count, and the message holds that number and the
  count; in that case the pitches have no influence on the outcome. It fails whenever
  the number of pitches differs from the count. The diameters are checked first, then
  made a tensor, then the pitches are checked: with the right number of diameters and
  a wrong number of pitches the outcome is the error of \<open>torch.tensor\<close> on the
  diameters when there is one, and else the \<open>ValueError\<close> whose message holds the
  number of pitches and the count.
\<close>

theorem init_length_errors:
  "(int (length ds) \<noteq> cnt \<longrightarrow>
      Propellers_init cnt ds ps = Inl (ValueError (''Shape of propeller_diameters (''
          @ str_nat (length ds) @ '') not equal to n_propellers ('' @ str_int cnt @ '').''))
      \<and> Propellers_init cnt ds ps' = Propellers_init cnt ds ps)
   \<and> (int (length ps) \<noteq> cnt \<longrightarrow> isl (Propellers_init cnt ds ps))
   \<and> (int (length ds) = cnt \<and> int (length ps) \<noteq> cnt \<longrightarrow>
      Propellers_init cnt ds ps =
        (case torch_tensor ds of
           Inl e \<Rightarrow> Inl e
         | Inr d \<Rightarrow> Inl (ValueError (''Shape of propeller_pitchs (''
             @ str_nat (length ps) @ '') not equal to n_propellers ('' @ str_int cnt @ '').''))))
   \<and> (int (length ds) = cnt \<and> int (length ps) \<noteq> cnt \<and> list_all int64_ok ds \<longrightarrow>
      Propellers_init cnt ds ps = Inl (ValueError (''Shape of propeller_pitchs (''
          @ str_nat (length ps) @ '') not equal to n_propellers ('' @ str_int cnt @ '').'')))"
  by (auto simp add: Propellers_init_def torch_tensor_accepts split: sum.splits)

theorem init_length_errors_witness:
  "Propellers_init 2 [PyFloat (Some 0.3)] [PyFloat (Some 0.2), PyFloat (Some 0.2)]
     = Inl (ValueError ''Shape of propeller_diameters (1) not equal to n_propellers (2).'')
   \<and> Propellers_init 2 [PyFloat (Some 0.3)]
        [PyFloat (Some 0.2), PyFloat (Some 0.2), PyFloat (Some 0.7)]
     = Propellers_init 2 [PyFloat (Some 0.3)] [PyFloat (Some 0.2), PyFloat (Some 0.2)]
   \<and> isl (Propellers_init 3 [PyFloat (Some 0.3)] [PyFloat (Some 0.2), PyFloat (Some 0.2)])
   \<and> Propellers_init 12 [PyInt 1, PyInt 1, PyInt 1, PyInt 1, PyInt 1, PyInt 1, PyInt 1,
                          PyInt 1, PyInt 1, PyInt 1, PyInt 1, PyInt 1]
        [PyFloat (Some 0.2), PyFloat (Some 0.2)]
     = Inl (ValueError ''Shape of propeller_pitchs (2) not equal to n_propellers (12).'')"
proof -
  let ?ds = "[PyInt 1, PyInt 1, PyInt 1, PyInt 1, PyInt 1, PyInt 1, PyInt 1,
              PyInt 1, PyInt 1, PyInt 1, PyInt 1, PyInt 1]"
  let ?ps = "[PyFloat (Some 0.2), PyFloat (Some 0.2)]"
  have "int (length ?ds) = 12 \<and> int (length ?ps) \<noteq> 12 \<and> list_all int64_ok ?ds"
    by (simp add: int64_ok_def)
  then have "Propellers_init 12 ?ds ?ps = Inl (ValueError (''Shape of propeller_pitchs (''
          @ str_nat (length ?ps) @ '') not equal to n_propellers ('' @ str_int 12 @ '').''))"
    using init_length_errors [of ?ds 12 ?ps] by blast
  then have pitches: "Propellers_init 12 ?ds ?ps
      = Inl (ValueError ''Shape of propeller_pitchs (2) not equal to n_propellers (12).'')"
    by (simp add: str_nat.simps str_int_def digit_char_def)
  show ?thesis
    using pitches
      init_length_errors [of "[PyFloat (Some 0.3)]" 2 ?ps
        "[PyFloat (Some 0.2), PyFloat (Some 0.2), PyFloat (Some 0.7)]"]
      init_length_errors [of "[PyFloat (Some 0.3)]" 3 ?ps]
    by (simp add: str_nat.simps str_int_def digit_char_def)
qed

theorem init_length_errors_counterexample:
  "int (length ([] :: pynum list)) \<noteq> 2
   \<and> Propellers_init 2 [PyInt (2 ^ 1024), PyFloat (Some 1)] []
     = Inl (OverflowError ''int too large to convert to float'')"
  by (simp add: Propellers_init_def torch_tensor_def is_int_def double_ok_def)

text \<open>
  C10, as the program has it: construction raises an error for a length mismatch and
  when \<open>torch.tensor\<close> does not accept one of the lists, and for nothing else: the count
  is not validated, and every float and every integer of 64 bits is accepted, whatever
  its sign. A list of integers is not accepted when one of them does not fit 64 bits,
  and a list with a float when one of its integers is too large for a float. With count
  zero and no diameters and pitches construction gives an object with four empty vectors.
\<close>

theorem init_fails_only_on_lengths:
  "(isl (Propellers_init cnt ds ps)
      \<longleftrightarrow> (int (length ds) \<noteq> cnt \<or> int (length ps) \<noteq> cnt
           \<or> isl (torch_tensor ds) \<or> isl (torch_tensor ps)))
   \<and> (isl (torch_tensor xs)
      \<longleftrightarrow> (if xs \<noteq> [] \<and> list_all is_int xs then \<not> list_all int64_ok xs
           else \<not> list_all double_ok xs))
   \<and> (list_all int64_ok xs \<longrightarrow> \<not> isl (torch_tensor xs))
   \<and> Propellers_init 0 [] [] = Inr \<lparr>n = 0, dia = [], pitch = [], speed = [], thrust = []\<rparr>"
proof -
  have "Propellers_init 0 [] [] = Inr \<lparr>n = 0, dia = [], pitch = [], speed = [], thrust = []\<rparr>"
    by (simp add: Propellers_init_def torch_tensor_def scalar_mul_def torch_zeros_def)
  then show ?thesis
    by (simp add: init_isl torch_tensor_isl torch_tensor_accepts)
qed

theorem init_fails_only_on_lengths_witness:
  "\<not> isl (Propellers_init 2 [PyFloat (Some 0), PyInt (- 1)] [PyInt (- 2), PyInt 0])
   \<and> \<not> isl (torch_tensor [PyFloat (Some 0), PyInt (- 1)])
   \<and> Propellers_init 0 [] [] = Inr \<lparr>n = 0, dia = [], pitch = [], speed = [], thrust = []\<rparr>"
proof -
  have d: "list_all int64_ok [PyFloat (Some 0), PyInt (- 1)]"
    and p: "list_all int64_ok [PyInt (- 2), PyInt 0]"
    by (simp_all add: int64_ok_def)
  have "\<not> isl (torch_tensor [PyFloat (Some 0), PyInt (- 1)])"
    using init_fails_only_on_lengths [of 0 "[]" "[]" "[PyFloat (Some 0), PyInt (- 1)]"] d by blast
  moreover have "\<not> isl (torch_tensor [PyInt (- 2), PyInt 0])"
    using init_fails_only_on_lengths [of 0 "[]" "[]" "[PyInt (- 2), PyInt 0]"] p by blast
  ultimately show ?thesis
    using init_fails_only_on_lengths [of 2 "[PyFloat (Some 0), PyInt (- 1)]"
        "[PyInt (- 2), PyInt 0]" "[]"]
    by simp
qed

theorem init_fails_only_on_lengths_counterexample:
  "int (length [PyFloat (Some 0.3), PyFloat (Some 0.3)]) = 2
   \<and> int (length [PyInt (- (2 ^ 63) - 1), PyInt 0]) = 2
   \<and> isl (Propellers_init 2 [PyFloat (Some 0.3), PyFloat (Some 0.3)]
                             [PyInt (- (2 ^ 63) - 1), PyInt 0])"
  by (simp add: Propellers_init_def torch_tensor_def is_int_def int64_ok_def double_ok_def)

section \<open>Setting the speed\<close>



text \<open>
  C2: for a finite speed and a positive diameter and pitch, the steps of the two
  assignments give, in exact arithmetic, the two-step product of real numbers, and
  that product is the closed form of the specification.
\<close>

theorem two_step_is_closed_form:
  assumes "0 < d" and "0 < p"
  shows "thrust_elem (Some s) (Some d) (Some p)
           = Some ((4.392 / 10 ^ 8 * s * d powr 3.5 / sqrt p) * (4.23 / 10 ^ 4 * s * p))
         \<and> (4.392 / 10 ^ 8 * s * d powr 3.5 / sqrt p) * (4.23 / 10 ^ 4 * s * p)
           = spec_closed_form s d p"
proof
  show "thrust_elem (Some s) (Some d) (Some p)
          = Some ((4.392 / 10 ^ 8 * s * d powr 3.5 / sqrt p) * (4.23 / 10 ^ 4 * s * p))"
    using assms by (simp only: thrust_elem_finite [OF less_imp_le])
  show "(4.392 / 10 ^ 8 * s * d powr 3.5 / sqrt p) * (4.23 / 10 ^ 4 * s * p)
          = spec_closed_form s d p"
    using assms(2) by (simp only: two_step_closed spec_closed_form_def)
qed

theorem two_step_is_closed_form_witness:
  "thrust_elem (Some 3000) (Some 1) (Some 4)
     = Some ((4.392 / 10 ^ 8 * 3000 * 1 powr 3.5 / sqrt 4) * (4.23 / 10 ^ 4 * 3000 * 4))
   \<and> (4.392 / 10 ^ 8 * 3000 * 1 powr 3.5 / sqrt 4) * (4.23 / 10 ^ 4 * 3000 * 4)
     = spec_closed_form 3000 1 4"
proof -
  have d: "(0::real) < 1" and p: "(0::real) < 4"
    by simp_all
  show ?thesis
    using two_step_is_closed_form [OF d p, of 3000] .
qed

text \<open>
  C5: on an object made by the constructor, \<open>set_speed\<close> with a vector whose length
  differs from the count raises \<open>ValueError\<close> and leaves the object as it was.
\<close>

theorem set_speed_wrong_length:
  assumes "Propellers_init cnt ds ps = Inr s0" and "int (length speeds) \<noteq> cnt"
  shows "\<exists>msg. set_speed (run s0 calls) speeds = (Inl (ValueError msg), run s0 calls)"
proof -
  have "built cnt ds ps (run s0 calls)"
    using assms(1) by (rule init_run_built)
  then have "int (length speeds) \<noteq> n (run s0 calls)"
    using assms(2) by (simp add: built_def)
  then show ?thesis by (simp add: set_speed_reject)
qed

theorem set_speed_wrong_length_witness:
  "Propellers_init 3 [PyInt 1, PyInt 1, PyInt 1] [PyInt 1, PyInt 1, PyInt 1]
     = Inr \<lparr>n = 3, dia = [Some 39.37, Some 39.37, Some 39.37],
            pitch = [Some 39.37, Some 39.37, Some 39.37],
            speed = [Some 0, Some 0, Some 0], thrust = [Some 0, Some 0, Some 0]\<rparr>
   \<and> (\<exists>msg. set_speed \<lparr>n = 3, dia = [Some 39.37, Some 39.37, Some 39.37],
            pitch = [Some 39.37, Some 39.37, Some 39.37],
            speed = [Some 0, Some 0, Some 0], thrust = [Some 0, Some 0, Some 0]\<rparr>
          [Some 1, Some 2]
        = (Inl (ValueError msg),
           \<lparr>n = 3, dia = [Some 39.37, Some 39.37, Some 39.37],
            pitch = [Some 39.37, Some 39.37, Some 39.37],
            speed = [Some 0, Some 0, Some 0], thrust = [Some 0, Some 0, Some 0]\<rparr>))"
proof -
  have inch: "mul32 (Some 39.37) (to_f32 (PyInt 1)) = Some (1 * 39.37)"
    by (rule inch_value) (simp_all add: py_value_def)
  have ok: "\<not> isl (torch_tensor [PyInt 1, PyInt 1, PyInt 1])"
    by (simp add: torch_tensor_isl is_int_def int64_ok_def)
  have made: "Propellers_init 3 [PyInt 1, PyInt 1, PyInt 1] [PyInt 1, PyInt 1, PyInt 1]
     = Inr \<lparr>n = 3, dia = [Some 39.37, Some 39.37, Some 39.37],
            pitch = [Some 39.37, Some 39.37, Some 39.37],
            speed = [Some 0, Some 0, Some 0], thrust = [Some 0, Some 0, Some 0]\<rparr>"
    using inch by (simp add: init_accepted [OF _ _ ok ok] numeral_3_eq_3)
  have len: "int (length [Some (1::real), Some 2]) \<noteq> 3"
    by simp
  show ?thesis
    using made set_speed_wrong_length [OF made len, of "[]"] by simp
qed

section \<open>Sequences of calls\<close>

text \<open>
  C6: after a successful construction and any sequence of calls of \<open>set_speed\<close>,
  failed ones included, the four vectors \<open>dia\<close>, \<open>pitch\<close>, \<open>speed\<close> and \<open>thrust\<close>
  have as many elements as the count says.
\<close>

theorem lengths_equal_count:
  assumes "Propellers_init cnt ds ps = Inr s0"
  shows "n (run s0 calls) = cnt
       \<and> int (length (dia (run s0 calls))) = cnt
       \<and> int (length (pitch (run s0 calls))) = cnt
       \<and> int (length (speed (run s0 calls))) = cnt
       \<and> int (length (thrust (run s0 calls))) = cnt"
proof -
  have "built cnt ds ps (run s0 calls)"
    using assms by (rule init_run_built)
  then show ?thesis by (simp add: built_def)
qed

theorem lengths_equal_count_witness:
  "Propellers_init 2 [PyInt 0, PyInt 0] [PyInt 1, PyInt 1]
     = Inr \<lparr>n = 2, dia = [Some 0, Some 0], pitch = [Some 39.37, Some 39.37],
            speed = [Some 0, Some 0], thrust = [Some 0, Some 0]\<rparr>
   \<and> run \<lparr>n = 2, dia = [Some 0, Some 0], pitch = [Some 39.37, Some 39.37],
            speed = [Some 0, Some 0], thrust = [Some 0, Some 0]\<rparr>
        ([Some 5, Some 6] # [Some 1] # [None, Some 2] # [])
     = \<lparr>n = 2, dia = [Some 0, Some 0], pitch = [Some 39.37, Some 39.37],
            speed = [None, Some 2], thrust = [None, Some 0]\<rparr>
   \<and> int (length [None, Some (2::real)]) = 2
   \<and> int (length [None, Some (0::real)]) = 2"
proof -
  let ?s0 = "\<lparr>n = 2, dia = [Some 0, Some 0], pitch = [Some 39.37, Some 39.37],
            speed = [Some 0, Some 0], thrust = [Some 0, Some 0]\<rparr>"
  have inch: "mul32 (Some 39.37) (to_f32 (PyInt 1)) = Some (1 * 39.37)"
    by (rule inch_value) (simp_all add: py_value_def)
  have zero: "mul32 (Some 39.37) (to_f32 (PyInt 0)) = Some 0"
    by (simp add: to_f32_def py_value_def mul32_def fmul_def round32_zero)
  have ok: "\<not> isl (torch_tensor [PyInt 0, PyInt 0])" "\<not> isl (torch_tensor [PyInt 1, PyInt 1])"
    by (simp_all add: torch_tensor_isl is_int_def int64_ok_def)
  have made: "Propellers_init 2 [PyInt 0, PyInt 0] [PyInt 1, PyInt 1] = Inr ?s0"
    using inch zero by (simp add: init_accepted [OF _ _ ok] numeral_2_eq_2)
  have v5: "thrust_elem32 (Some 5) (Some 0) (Some 39.37) = Some 0"
    by (rule zero_dia_thrust) simp_all
  have v6: "thrust_elem32 (Some 6) (Some 0) (Some 39.37) = Some 0"
    by (rule zero_dia_thrust) simp_all
  have v2: "thrust_elem32 (Some 2) (Some 0) (Some 39.37) = Some 0"
    by (rule zero_dia_thrust) simp_all
  note vals = v5 [simplified] v6 [simplified] v2 [simplified]
  have upt2: "[0..<2] = [0, 1]"
    by (simp add: upt_rec)
  have ran: "run ?s0 ([Some 5, Some 6] # [Some 1] # [None, Some 2] # [])
     = \<lparr>n = 2, dia = [Some 0, Some 0], pitch = [Some 39.37, Some 39.37],
            speed = [None, Some 2], thrust = [None, Some 0]\<rparr>"
    by (simp add: set_speed_same set_speed_reject vals thrust_elem32_None upt2)
  show ?thesis
    using made ran
      lengths_equal_count [OF made, of "[Some 5, Some 6] # [Some 1] # [None, Some 2] # []"]
    by simp
qed

text \<open>
  C7: a call of \<open>set_speed\<close>, whatever its outcome, leaves the count, the diameters
  and the pitches as they were.
\<close>

theorem set_speed_keeps_geometry:
  "n (snd (set_speed s speeds)) = n s
   \<and> dia (snd (set_speed s speeds)) = dia s
   \<and> pitch (snd (set_speed s speeds)) = pitch s"
  by (simp add: set_speed_def Let_def split: sum.splits)

theorem set_speed_keeps_geometry_witness:
  "n (snd (set_speed \<lparr>n = 1, dia = [Some 1], pitch = [Some 4], speed = [Some 0],
                      thrust = [Some 0]\<rparr> [Some 10])) = 1
   \<and> dia (snd (set_speed \<lparr>n = 1, dia = [Some 1], pitch = [Some 4], speed = [Some 0],
                      thrust = [Some 0]\<rparr> [Some 10])) = [Some 1]
   \<and> pitch (snd (set_speed \<lparr>n = 1, dia = [Some 1], pitch = [Some 4], speed = [Some 0],
                      thrust = [Some 0]\<rparr> [Some 10])) = [Some 4]"
  using set_speed_keeps_geometry [of "\<lparr>n = 1, dia = [Some 1], pitch = [Some 4],
    speed = [Some 0], thrust = [Some 0]\<rparr>" "[Some 10]"]
  by simp

text \<open>
  C8: on an object made by the constructor, a second call of \<open>set_speed\<close> with the
  same vector of count speeds has the outcome of the first and leaves the object,
  and so its thrust, as the first call left it.
\<close>

theorem set_speed_idempotent:
  assumes "Propellers_init cnt ds ps = Inr s0" and "int (length speeds) = cnt"
  shows "set_speed (snd (set_speed (run s0 calls) speeds)) speeds
           = set_speed (run s0 calls) speeds
       \<and> fst (set_speed (run s0 calls) speeds) = Inr ()"
proof -
  have b: "built cnt ds ps (run s0 calls)"
    using assms(1) by (rule init_run_built)
  then have b': "built cnt ds ps (snd (set_speed (run s0 calls) speeds))"
    by (rule set_speed_built)
  show ?thesis
    by (simp add: set_speed_built_ok [OF b' assms(2)])
       (simp add: set_speed_built_ok [OF b assms(2)])
qed

theorem set_speed_idempotent_witness:
  "Propellers_init 1 [PyInt 3] [PyInt 2]
     = Inr \<lparr>n = 1, dia = [Some 118.11], pitch = [Some 78.74],
            speed = [Some 0], thrust = [Some 0]\<rparr>
   \<and> set_speed (snd (set_speed \<lparr>n = 1, dia = [Some 118.11], pitch = [Some 78.74],
                                speed = [Some 0], thrust = [Some 0]\<rparr> [Some 1000]))
        [Some 1000]
     = set_speed \<lparr>n = 1, dia = [Some 118.11], pitch = [Some 78.74],
                  speed = [Some 0], thrust = [Some 0]\<rparr> [Some 1000]
   \<and> fst (set_speed \<lparr>n = 1, dia = [Some 118.11], pitch = [Some 78.74],
                      speed = [Some 0], thrust = [Some 0]\<rparr> [Some 1000]) = Inr ()"
proof -
  have len: "int (length [Some (1000::real)]) = 1"
    by simp
  show ?thesis
    using example_object set_speed_idempotent [OF example_object len, of "[]"] by simp
qed

text \<open>
  C9, as the program has it: on an object made by the constructor, for one propeller
  and two finite speeds, the second of greater magnitude: when the thrust computed
  from the second speed is finite, the thrust computed from the first is finite and
  not greater in magnitude. The magnitudes can be equal, and both thrusts can be
  infinite.
\<close>

theorem thrust_monotone_in_speed:
  assumes "Propellers_init cnt ds ps = Inr s0"
    and "int (length sp1) = cnt" and "int (length sp2) = cnt"
    and "i < length ds"
    and "sp1 ! i = Some a" and "sp2 ! i = Some b" and "\<bar>a\<bar> < \<bar>b\<bar>"
    and "thrust (snd (set_speed (run s0 calls) sp2)) ! i = Some t2"
  shows "\<exists>t1. thrust (snd (set_speed (run s0 calls) sp1)) ! i = Some t1 \<and> \<bar>t1\<bar> \<le> \<bar>t2\<bar>"
proof -
  let ?d = "mul32 (Some 39.37) (to_f32 (ds ! i))" and ?p = "mul32 (Some 39.37) (to_f32 (ps ! i))"
  have b: "built cnt ds ps (run s0 calls)"
    using assms(1) by (rule init_run_built)
  then have len: "i < length sp1" "i < length sp2"
    using assms(2,3,4) by (simp_all add: built_def)
  have t1: "thrust (snd (set_speed (run s0 calls) sp1)) ! i = thrust_elem32 (Some a) ?d ?p"
    unfolding set_speed_built_ok [OF b assms(2)] using len(1) assms(5) by simp
  have t2: "thrust (snd (set_speed (run s0 calls) sp2)) ! i = thrust_elem32 (Some b) ?d ?p"
    unfolding set_speed_built_ok [OF b assms(3)] using len(2) assms(6) by simp
  have "below (Some a) (Some b)"
    using assms(7) by (simp add: below_Some)
  then have "below (thrust_elem32 (Some a) ?d ?p) (thrust_elem32 (Some b) ?d ?p)"
    by (rule below_thrust_elem32)
  then have "below (thrust (snd (set_speed (run s0 calls) sp1)) ! i) (Some t2)"
    using assms(8) by (simp only: t1 t2)
  then show ?thesis
    by (rule below_SomeD)
qed

theorem thrust_monotone_in_speed_witness:
  "Propellers_init 1 [PyInt 3] [PyInt 2]
     = Inr \<lparr>n = 1, dia = [Some 118.11], pitch = [Some 78.74],
            speed = [Some 0], thrust = [Some 0]\<rparr>
   \<and> \<bar>1000 :: real\<bar> < \<bar>2000\<bar>
   \<and> thrust (snd (set_speed \<lparr>n = 1, dia = [Some 118.11], pitch = [Some 78.74],
                  speed = [Some 0], thrust = [Some 0]\<rparr> [Some 2000])) ! 0
       = Some ((4.392 / 10 ^ 8 * 2000 * 118.11 powr 3.5 / sqrt 78.74)
               * (4.23 / 10 ^ 4 * 2000 * 78.74))
   \<and> (\<exists>t1. thrust (snd (set_speed \<lparr>n = 1, dia = [Some 118.11], pitch = [Some 78.74],
                  speed = [Some 0], thrust = [Some 0]\<rparr> [Some 1000])) ! 0 = Some t1
        \<and> \<bar>t1\<bar> \<le> \<bar>(4.392 / 10 ^ 8 * 2000 * 118.11 powr 3.5 / sqrt 78.74)
                      * (4.23 / 10 ^ 4 * 2000 * 78.74)\<bar>)"
proof -
  let ?S = "\<lparr>n = 1, dia = [Some 118.11], pitch = [Some 78.74],
             speed = [Some 0], thrust = [Some 0]\<rparr>"
  have l1: "int (length [Some (1000::real)]) = 1" and l2: "int (length [Some (2000::real)]) = 1"
    by simp_all
  have i: "0 < length [PyInt 3]"
    by simp
  have a: "[Some (1000::real)] ! 0 = Some 1000" and b: "[Some (2000::real)] ! 0 = Some 2000"
    by simp_all
  have lt: "\<bar>1000 :: real\<bar> < \<bar>2000\<bar>"
    by simp
  have "thrust (snd (set_speed (run ?S []) [Some 2000])) ! 0
        = thrust_elem32 (Some 2000) (Some 118.11) (Some 78.74)"
    by (rule example_set_speed)
  also have "\<dots> = Some ((4.392 / 10 ^ 8 * 2000 * 118.11 powr 3.5 / sqrt 78.74)
                         * (4.23 / 10 ^ 4 * 2000 * 78.74))"
    by (rule example_thrust_value) simp_all
  finally have t2: "thrust (snd (set_speed (run ?S []) [Some 2000])) ! 0
        = Some ((4.392 / 10 ^ 8 * 2000 * 118.11 powr 3.5 / sqrt 78.74)
                * (4.23 / 10 ^ 4 * 2000 * 78.74))" .
  show ?thesis
    using example_object lt t2
      thrust_monotone_in_speed [OF example_object l1 l2 i a b lt t2]
    by (simp only: run.simps simp_thms)
qed

theorem thrust_monotone_in_speed_counterexample:
  "Propellers_init 1 [PyInt 3] [PyInt 2]
     = Inr \<lparr>n = 1, dia = [Some 118.11], pitch = [Some 78.74],
            speed = [Some 0], thrust = [Some 0]\<rparr>
   \<and> \<bar>1 / 10 ^ 30 :: real\<bar> < \<bar>1 / 10 ^ 25\<bar>
   \<and> thrust (snd (set_speed \<lparr>n = 1, dia = [Some 118.11], pitch = [Some 78.74],
                  speed = [Some 0], thrust = [Some 0]\<rparr> [Some (1 / 10 ^ 30)])) ! 0 = Some 0
   \<and> thrust (snd (set_speed \<lparr>n = 1, dia = [Some 118.11], pitch = [Some 78.74],
                  speed = [Some 0], thrust = [Some 0]\<rparr> [Some (1 / 10 ^ 25)])) ! 0 = Some 0
   \<and> \<bar>10 ^ 30 :: real\<bar> < \<bar>10 ^ 35\<bar>
   \<and> thrust (snd (set_speed \<lparr>n = 1, dia = [Some 118.11], pitch = [Some 78.74],
                  speed = [Some 0], thrust = [Some 0]\<rparr> [Some (10 ^ 30)])) ! 0 = None
   \<and> thrust (snd (set_speed \<lparr>n = 1, dia = [Some 118.11], pitch = [Some 78.74],
                  speed = [Some 0], thrust = [Some 0]\<rparr> [Some (10 ^ 35)])) ! 0 = None"
proof -
  let ?S = "\<lparr>n = 1, dia = [Some 118.11], pitch = [Some 78.74],
             speed = [Some 0], thrust = [Some 0]\<rparr>"
  have u1: "thrust_elem32 (Some (1 / 10 ^ 30)) (Some 118.11) (Some 78.74) = Some 0"
    by (rule example_thrust_underflow) simp_all
  have u2: "thrust_elem32 (Some (1 / 10 ^ 25)) (Some 118.11) (Some 78.74) = Some 0"
    by (rule example_thrust_underflow) simp_all
  have o1: "thrust_elem32 (Some (10 ^ 30)) (Some 118.11) (Some 78.74) = None"
    by (rule example_thrust_overflow) simp_all
  have o2: "thrust_elem32 (Some (10 ^ 35)) (Some 118.11) (Some 78.74) = None"
    by (rule example_thrust_overflow) simp_all
  have call: "thrust (snd (set_speed ?S [sp])) ! 0 = thrust_elem32 sp (Some 118.11) (Some 78.74)"
    for sp
    using example_set_speed [of "[]" sp] by (simp only: run.simps)
  have lt: "\<bar>1 / 10 ^ 30 :: real\<bar> < \<bar>1 / 10 ^ 25\<bar>" "\<bar>10 ^ 30 :: real\<bar> < \<bar>10 ^ 35\<bar>"
    by simp_all
  show ?thesis
    using example_object lt by (simp only: call u1 u2 o1 o2 simp_thms)
qed

end
